theory Spec2Isabelle
  imports Main "HOL-Library.Word"
begin

unbundle bit_operations_syntax

section \<open>Text and bytes\<close>

text \<open>
  A Python \<^verbatim>\<open>str\<close> is represented by its UTF-8 encoding, one \<^typ>\<open>char\<close> per byte, so
  that \<^verbatim>\<open>s.encode('utf-8')\<close> is the identity and \<^verbatim>\<open>bytes\<close> values live in the same type.
  Concatenation, \<^verbatim>\<open>join\<close>, equality, hashing and slicing of encoded bytes are exact under
  this representation.
\<close>

type_synonym bytes = "char list"

definition encode_utf8 :: "string \<Rightarrow> bytes" where
  "encode_utf8 s = s"

definition byte :: "int \<Rightarrow> char" where
  "byte n = char_of n"

definition ord :: "char \<Rightarrow> int" where
  "ord c = of_char c"

section \<open>SHA-256 (\<^verbatim>\<open>hashlib.sha256\<close>)\<close>

type_synonym w32 = "32 word"

definition rotr :: "nat \<Rightarrow> w32 \<Rightarrow> w32" where
  "rotr n x = or (drop_bit n x) (push_bit (32 - n) x)"

definition ch :: "w32 \<Rightarrow> w32 \<Rightarrow> w32 \<Rightarrow> w32" where
  "ch x y z = xor (and x y) (and (not x) z)"

definition maj :: "w32 \<Rightarrow> w32 \<Rightarrow> w32 \<Rightarrow> w32" where
  "maj x y z = xor (xor (and x y) (and x z)) (and y z)"

definition bsig0 :: "w32 \<Rightarrow> w32" where
  "bsig0 x = xor (xor (rotr 2 x) (rotr 13 x)) (rotr 22 x)"

definition bsig1 :: "w32 \<Rightarrow> w32" where
  "bsig1 x = xor (xor (rotr 6 x) (rotr 11 x)) (rotr 25 x)"

definition ssig0 :: "w32 \<Rightarrow> w32" where
  "ssig0 x = xor (xor (rotr 7 x) (rotr 18 x)) (drop_bit 3 x)"

definition ssig1 :: "w32 \<Rightarrow> w32" where
  "ssig1 x = xor (xor (rotr 17 x) (rotr 19 x)) (drop_bit 10 x)"

definition sha_k :: "w32 list" where
  "sha_k = [
   1116352408, 1899447441, 3049323471, 3921009573, 961987163, 1508970993, 2453635748, 2870763221,
   3624381080, 310598401, 607225278, 1426881987, 1925078388, 2162078206, 2614888103, 3248222580,
   3835390401, 4022224774, 264347078, 604807628, 770255983, 1249150122, 1555081692, 1996064986,
   2554220882, 2821834349, 2952996808, 3210313671, 3336571891, 3584528711, 113926993, 338241895,
   666307205, 773529912, 1294757372, 1396182291, 1695183700, 1986661051, 2177026350, 2456956037,
   2730485921, 2820302411, 3259730800, 3345764771, 3516065817, 3600352804, 4094571909, 275423344,
   430227734, 506948616, 659060556, 883997877, 958139571, 1322822218, 1537002063, 1747873779,
   1955562222, 2024104815, 2227730452, 2361852424, 2428436474, 2756734187, 3204031479, 3329325298]"

type_synonym hstate = "w32 \<times> w32 \<times> w32 \<times> w32 \<times> w32 \<times> w32 \<times> w32 \<times> w32"

definition sha_init :: hstate where
  "sha_init = (1779033703, 3144134277, 1013904242, 2773480762,
               1359893119, 2600822924, 528734635, 1541459225)"

fun sha_round :: "hstate \<Rightarrow> w32 \<Rightarrow> w32 \<Rightarrow> hstate" where
  "sha_round (a, b, c, d, e, f, g, h) k w =
     (let t1 = h + bsig1 e + ch e f g + k + w;
          t2 = bsig0 a + maj a b c
      in (t1 + t2, a, b, c, d + t1, e, f, g))"

text \<open>The message schedule is kept as a sliding window of the sixteen most recent words.\<close>

fun sha_next_w :: "w32 list \<Rightarrow> w32" where
  "sha_next_w ws = ssig1 (ws ! 14) + ws ! 9 + ssig0 (ws ! 1) + ws ! 0"

fun sha_rounds :: "hstate \<Rightarrow> w32 list \<Rightarrow> w32 list \<Rightarrow> hstate" where
  "sha_rounds st ws [] = st"
| "sha_rounds st ws (k # ks) =
     sha_rounds (sha_round st k (hd ws)) (tl ws @ [sha_next_w ws]) ks"

fun add_state :: "hstate \<Rightarrow> hstate \<Rightarrow> hstate" where
  "add_state (a, b, c, d, e, f, g, h) (a', b', c', d', e', f', g', h') =
     (a + a', b + b', c + c', d + d', e + e', f + f', g + g', h + h')"

fun be_words :: "bytes \<Rightarrow> w32 list" where
  "be_words (a # b # c # d # r) =
     (push_bit 24 (of_char a) + push_bit 16 (of_char b) + push_bit 8 (of_char c) + of_char d)
       # be_words r"
| "be_words _ = []"

definition sha_block :: "hstate \<Rightarrow> bytes \<Rightarrow> hstate" where
  "sha_block st blk = add_state st (sha_rounds st (be_words blk) sha_k)"

function sha_blocks :: "hstate \<Rightarrow> bytes \<Rightarrow> hstate" where
  "sha_blocks st bs =
     (if length bs < 64 then st else sha_blocks (sha_block st (take 64 bs)) (drop 64 bs))"
  by pat_completeness auto
termination
  by (relation "measure (\<lambda>(st, bs). length bs)") auto

definition be_bytes :: "nat \<Rightarrow> int \<Rightarrow> bytes" where
  "be_bytes n v = map (\<lambda>i. byte (drop_bit (8 * (n - 1 - i)) v)) [0..<n]"

definition sha_pad :: "bytes \<Rightarrow> bytes" where
  "sha_pad m = m @ [byte 128] @ replicate ((119 - length m mod 64) mod 64) (byte 0)
               @ be_bytes 8 (8 * int (length m))"

definition hex_digit :: "int \<Rightarrow> char" where
  "hex_digit n = ''0123456789abcdef'' ! nat (n mod 16)"

definition hex_byte :: "int \<Rightarrow> string" where
  "hex_byte n = [hex_digit (n div 16), hex_digit n]"

definition hex_w32 :: "w32 \<Rightarrow> string" where
  "hex_w32 w = concat (map (\<lambda>i. hex_byte (uint (drop_bit (8 * (3 - i)) w))) [0..<4])"

fun state_words :: "hstate \<Rightarrow> w32 list" where
  "state_words (a, b, c, d, e, f, g, h) = [a, b, c, d, e, f, g, h]"

definition sha256_hexdigest :: "bytes \<Rightarrow> string" where
  "sha256_hexdigest m = concat (map hex_w32 (state_words (sha_blocks sha_init (sha_pad m))))"

definition byte_w32 :: "w32 \<Rightarrow> bytes" where
  "byte_w32 w = map (\<lambda>i. byte (uint (drop_bit (8 * (3 - i)) w))) [0..<4]"

definition sha256_digest :: "bytes \<Rightarrow> bytes" where
  "sha256_digest m = concat (map byte_w32 (state_words (sha_blocks sha_init (sha_pad m))))"

text \<open>\<^verbatim>\<open>crypto.sha256_hash\<close> for a \<^verbatim>\<open>str\<close> argument: encode, hash, hex.\<close>

definition sha256_hash :: "string \<Rightarrow> string" where
  "sha256_hash data = sha256_hexdigest (encode_utf8 data)"

section \<open>Python numbers and their text\<close>

datatype py_error =
    ZeroDivisionError
  | ValueError
  | TypeError
  | KeyError
  | AttributeError
  | BinasciiError

text \<open>\<^verbatim>\<open>str(n)\<close> for an unbounded Python integer.\<close>

definition digit_char :: "int \<Rightarrow> char" where
  "digit_char d = byte (48 + d)"

function nat_digits :: "int \<Rightarrow> string" where
  "nat_digits n = (if n < 10 then [digit_char n] else nat_digits (n div 10) @ [digit_char (n mod 10)])"
  by pat_completeness auto
termination
  by (relation "measure nat") auto

definition str_int :: "int \<Rightarrow> string" where
  "str_int n = (if n < 0 then CHR ''-'' # nat_digits (- n) else nat_digits n)"

subsection \<open>Binary64 floating point\<close>

text \<open>
  A finite Python \<^verbatim>\<open>float\<close> is \<open>m * 2 ^ e\<close> with \<open>m\<close> odd, or zero. Every operation
  computes the exact rational result and rounds it to the nearest 53-bit significand,
  ties to even, as IEEE 754 prescribes. Overflow to infinity, subnormal numbers, signed
  zero and NaN lie outside the range of the quantities computed by the program (losses
  and their reciprocals are of magnitude around one) and are not represented.
\<close>

datatype pyfloat = Flt int int

type_synonym frac = "int \<times> int"

function bitlen :: "int \<Rightarrow> int" where
  "bitlen n = (if n \<le> 0 then 0 else 1 + bitlen (n div 2))"
  by pat_completeness auto
termination
  by (relation "measure nat") auto

definition pow2 :: "int \<Rightarrow> int" where
  "pow2 e = 2 ^ nat e"

definition pow10 :: "int \<Rightarrow> int" where
  "pow10 e = 10 ^ nat e"

text \<open>Nearest integer to \<open>a / b\<close> for \<open>b > 0\<close>, ties to even.\<close>

definition round_half_even :: "int \<Rightarrow> int \<Rightarrow> int" where
  "round_half_even a b =
     (let q = a div b; r = a mod b
      in if 2 * r < b then q else if b < 2 * r then q + 1 else if even q then q else q + 1)"

function strip_twos :: "int \<Rightarrow> int \<Rightarrow> pyfloat" where
  "strip_twos m e = (if m = 0 then Flt 0 0 else if even m then strip_twos (m div 2) (e + 1) else Flt m e)"
  by pat_completeness auto
termination
  by (relation "measure (\<lambda>(m, e). nat \<bar>m\<bar>)") auto

definition frac_of :: "pyfloat \<Rightarrow> frac" where
  "frac_of x = (case x of Flt m e \<Rightarrow> if 0 \<le> e then (m * pow2 e, 1) else (m, pow2 (- e)))"

text \<open>Round the exact fraction \<open>a / b\<close> (\<open>b > 0\<close>) to the nearest double.\<close>

definition to_float_pos :: "int \<Rightarrow> int \<Rightarrow> pyfloat" where
  "to_float_pos a b =
     (let k = bitlen a - bitlen b;
          p = (if (if 0 \<le> k then b * pow2 k \<le> a else b \<le> a * pow2 (- k)) then k else k - 1);
          e = p - 52;
          m = (if 0 \<le> e then round_half_even a (b * pow2 e) else round_half_even (a * pow2 (- e)) b)
      in strip_twos m e)"

definition fneg :: "pyfloat \<Rightarrow> pyfloat" where
  "fneg x = (case x of Flt m e \<Rightarrow> Flt (- m) e)"

definition to_float :: "frac \<Rightarrow> pyfloat" where
  "to_float q = (case q of (a, b) \<Rightarrow>
     if a = 0 then Flt 0 0 else if a < 0 then fneg (to_float_pos (- a) b) else to_float_pos a b)"

definition fadd :: "pyfloat \<Rightarrow> pyfloat \<Rightarrow> pyfloat" where
  "fadd x y = (case (frac_of x, frac_of y) of ((a, b), (c, d)) \<Rightarrow> to_float (a * d + c * b, b * d))"

definition fmul :: "pyfloat \<Rightarrow> pyfloat \<Rightarrow> pyfloat" where
  "fmul x y = (case (frac_of x, frac_of y) of ((a, b), (c, d)) \<Rightarrow> to_float (a * c, b * d))"

definition fdiv :: "pyfloat \<Rightarrow> pyfloat \<Rightarrow> py_error + pyfloat" where
  "fdiv x y = (case (frac_of x, frac_of y) of ((a, b), (c, d)) \<Rightarrow>
     if c = 0 then Inl ZeroDivisionError
     else if c < 0 then Inr (to_float (- (a * d), b * (- c)))
     else Inr (to_float (a * d, b * c)))"

text \<open>A decimal literal \<open>n / 10 ^ k\<close> of the source text, correctly rounded.\<close>

definition dec :: "int \<Rightarrow> int \<Rightarrow> pyfloat" where
  "dec n k = to_float (n, pow10 k)"

text \<open>
  \<^verbatim>\<open>round(x, ndigits)\<close> for \<open>ndigits \<ge> 0\<close>: the exact binary value is rounded half-even to
  that many decimals and the decimal result is converted back to the nearest double.
\<close>

definition py_round :: "pyfloat \<Rightarrow> int \<Rightarrow> pyfloat" where
  "py_round x nd = (case frac_of x of (a, b) \<Rightarrow>
     to_float (round_half_even (a * pow10 nd) b, pow10 nd))"

text \<open>
  \<^verbatim>\<open>repr\<close> of a float: the shortest digit string that converts back to the same double
  (the closest one among those of that length), laid out in fixed notation when the
  decimal point position \<open>decpt\<close> satisfies \<open>-4 < decpt \<le> 16\<close> and in exponent notation
  otherwise.
\<close>

function dec_length :: "int \<Rightarrow> int" where
  "dec_length n = (if n \<le> 0 then 0 else 1 + dec_length (n div 10))"
  by pat_completeness auto
termination
  by (relation "measure nat") auto

text \<open>The number \<open>k\<close> with \<open>10 ^ (k - 1) \<le> a / b < 10 ^ k\<close>, for \<open>a, b > 0\<close>.\<close>

definition dec_exponent :: "int \<Rightarrow> int \<Rightarrow> int" where
  "dec_exponent a b =
     (let k = dec_length a - dec_length b
      in if (if 0 \<le> k then b * pow10 k \<le> a else b \<le> a * pow10 (- k)) then k + 1 else k)"

text \<open>The fraction \<open>d * 10 ^ s\<close>.\<close>

definition dec_frac :: "int \<Rightarrow> int \<Rightarrow> frac" where
  "dec_frac d s = (if 0 \<le> s then (d * pow10 s, 1) else (d, pow10 (- s)))"

text \<open>
  The candidate with \<open>n\<close> significant digits for \<open>a / b\<close> with decimal exponent \<open>k\<close>:
  the neighbours \<open>lo\<close> and \<open>lo + 1\<close> of \<open>a / b * 10 ^ (n - k)\<close> are tried, the nearer first.
\<close>

definition digits_candidate :: "int \<Rightarrow> int \<Rightarrow> int \<Rightarrow> int \<Rightarrow> int option" where
  "digits_candidate a b k n =
     (let s = n - k;
          num = (if 0 \<le> s then a * pow10 s else a);
          den = (if 0 \<le> s then b else b * pow10 (- s));
          lo = num div den;
          r = num mod den;
          x = to_float_pos a b;
          lo_ok = (0 < lo \<and> to_float (dec_frac lo (- s)) = x);
          hi_ok = (to_float (dec_frac (lo + 1) (- s)) = x);
          lo_first = (2 * r < den \<or> (2 * r = den \<and> even lo))
      in if lo_ok \<and> (lo_first \<or> \<not> hi_ok) then Some lo
         else if hi_ok then Some (lo + 1)
         else if lo_ok then Some lo else None)"

fun shortest_digits :: "nat \<Rightarrow> int \<Rightarrow> int \<Rightarrow> int \<Rightarrow> int \<Rightarrow> int \<times> int" where
  "shortest_digits 0 a b k n = (round_half_even (a * pow10 (17 - k)) (b * pow10 (k - 17)), 17)"
| "shortest_digits (Suc fuel) a b k n =
     (case digits_candidate a b k n of
        Some d \<Rightarrow> (d, n)
      | None \<Rightarrow> shortest_digits fuel a b k (n + 1))"

function strip_zeros :: "int \<Rightarrow> int" where
  "strip_zeros d = (if d = 0 then 0 else if d mod 10 = 0 then strip_zeros (d div 10) else d)"
  by pat_completeness auto
termination
  by (relation "measure (\<lambda>d. nat \<bar>d\<bar>)") auto

definition exp_digits :: "int \<Rightarrow> string" where
  "exp_digits x = (if x < 10 then CHR ''0'' # nat_digits x else nat_digits x)"

definition repr_pos :: "int \<Rightarrow> int \<Rightarrow> string" where
  "repr_pos a b =
     (let k = dec_exponent a b;
          (d0, n) = shortest_digits 17 a b k 1;
          decpt = (if pow10 n \<le> d0 then k + 1 else k);
          ds = nat_digits (strip_zeros d0);
          nd = int (length ds)
      in if decpt \<le> - 4 \<or> 16 < decpt then
           (if nd = 1 then ds else take 1 ds @ ''.'' @ drop 1 ds)
             @ ''e'' @ (if decpt - 1 < 0 then ''-'' @ exp_digits (1 - decpt) else ''+'' @ exp_digits (decpt - 1))
         else if decpt \<le> 0 then ''0.'' @ replicate (nat (- decpt)) CHR ''0'' @ ds
         else if nd \<le> decpt then ds @ replicate (nat (decpt - nd)) CHR ''0'' @ ''.0''
         else take (nat decpt) ds @ ''.'' @ drop (nat decpt) ds)"

definition float_repr :: "pyfloat \<Rightarrow> string" where
  "float_repr x = (case frac_of x of (a, b) \<Rightarrow>
     if a = 0 then ''0.0'' else if a < 0 then ''-'' @ repr_pos (- a) b else repr_pos a b)"

section \<open>Python values, \<^verbatim>\<open>str\<close>, \<^verbatim>\<open>repr\<close> and \<^verbatim>\<open>json.dumps\<close>\<close>

text \<open>A dictionary is an association list in insertion order; keys are strings.\<close>

datatype pyval =
    PNone
  | PBool bool
  | PInt int
  | PFloat pyfloat
  | PStr string
  | PList "pyval list"
  | PDict "(string \<times> pyval) list"

type_synonym pydict = "(string \<times> pyval) list"

fun join :: "string \<Rightarrow> string list \<Rightarrow> string" where
  "join sep [] = []"
| "join sep [x] = x"
| "join sep (x # y # ys) = x @ sep @ join sep (y # ys)"

definition hex2 :: "int \<Rightarrow> string" where
  "hex2 n = [hex_digit (n div 16), hex_digit n]"

definition hex4 :: "int \<Rightarrow> string" where
  "hex4 n = hex2 (n div 256) @ hex2 n"

text \<open>\<^verbatim>\<open>repr\<close> of a string: choice of quote, backslash escapes, \<^verbatim>\<open>\xhh\<close> for control characters.\<close>

definition repr_char :: "char \<Rightarrow> char \<Rightarrow> string" where
  "repr_char q c =
     (if c = q \<or> c = CHR 0x5C then [CHR 0x5C, c]
      else if c = CHR 0x09 then [CHR 0x5C, CHR ''t'']
      else if c = CHR 0x0A then [CHR 0x5C, CHR ''n'']
      else if c = CHR 0x0D then [CHR 0x5C, CHR ''r'']
      else if ord c < 32 \<or> ord c = 127 then [CHR 0x5C, CHR ''x''] @ hex2 (ord c)
      else [c])"

definition repr_str :: "string \<Rightarrow> string" where
  "repr_str s =
     (let q = (if CHR 0x27 \<in> set s \<and> CHR 0x22 \<notin> set s then CHR 0x22 else CHR 0x27)
      in [q] @ concat (map (repr_char q) s) @ [q])"

fun py_repr :: "pyval \<Rightarrow> string"
  and py_repr_list :: "pyval list \<Rightarrow> string list"
  and py_repr_items :: "(string \<times> pyval) list \<Rightarrow> string list" where
  "py_repr PNone = ''None''"
| "py_repr (PBool b) = (if b then ''True'' else ''False'')"
| "py_repr (PInt n) = str_int n"
| "py_repr (PFloat x) = float_repr x"
| "py_repr (PStr s) = repr_str s"
| "py_repr (PList xs) = ''['' @ join '', '' (py_repr_list xs) @ '']''"
| "py_repr (PDict kvs) = ''{'' @ join '', '' (py_repr_items kvs) @ ''}''"
| "py_repr_list [] = []"
| "py_repr_list (x # xs) = py_repr x # py_repr_list xs"
| "py_repr_items [] = []"
| "py_repr_items ((k, v) # kvs) = (repr_str k @ '': '' @ py_repr v) # py_repr_items kvs"

text \<open>\<^verbatim>\<open>str(v)\<close>, which is what an f-string placeholder \<^verbatim>\<open>{v}\<close> inserts.\<close>

definition py_str :: "pyval \<Rightarrow> string" where
  "py_str v = (case v of PStr s \<Rightarrow> s | _ \<Rightarrow> py_repr v)"

text \<open>Truth value of an object in a condition.\<close>

definition truthy :: "pyval \<Rightarrow> bool" where
  "truthy v = (case v of
       PNone \<Rightarrow> False
     | PBool b \<Rightarrow> b
     | PInt n \<Rightarrow> n \<noteq> 0
     | PFloat x \<Rightarrow> x \<noteq> Flt 0 0
     | PStr s \<Rightarrow> s \<noteq> []
     | PList xs \<Rightarrow> xs \<noteq> []
     | PDict kvs \<Rightarrow> kvs \<noteq> [])"

text \<open>\<^verbatim>\<open>d.get(k, default)\<close>.\<close>

definition dict_get :: "pydict \<Rightarrow> string \<Rightarrow> pyval \<Rightarrow> pyval" where
  "dict_get d k dflt = (case map_of d k of Some v \<Rightarrow> v | None \<Rightarrow> dflt)"

subsection \<open>\<^verbatim>\<open>json.dumps(obj, sort_keys=True)\<close>\<close>

text \<open>
  Default separators \<^verbatim>\<open>", "\<close> and \<^verbatim>\<open>": "\<close>, \<^verbatim>\<open>ensure_ascii=True\<close>: every character outside
  the printable ASCII range, the quote and the backslash are escaped. Code points beyond
  ASCII are recovered from their UTF-8 bytes and written as \<^verbatim>\<open>\uXXXX\<close>, as a surrogate pair
  above the basic plane.
\<close>

definition cont :: "char \<Rightarrow> int" where
  "cont c = ord c mod 64"

definition is_cont :: "char \<Rightarrow> bool" where
  "is_cont c = (128 \<le> ord c \<and> ord c < 192)"

definition json_u :: "int \<Rightarrow> string" where
  "json_u n =
     (if n < 65536 then [CHR 0x5C, CHR ''u''] @ hex4 n
      else [CHR 0x5C, CHR ''u''] @ hex4 (55296 + (n - 65536) div 1024)
         @ [CHR 0x5C, CHR ''u''] @ hex4 (56320 + (n - 65536) mod 1024))"

definition json_ascii :: "char \<Rightarrow> string" where
  "json_ascii c =
     (if c = CHR 0x22 then [CHR 0x5C, CHR 0x22]
      else if c = CHR 0x5C then [CHR 0x5C, CHR 0x5C]
      else if c = CHR 0x0A then [CHR 0x5C, CHR ''n'']
      else if c = CHR 0x0D then [CHR 0x5C, CHR ''r'']
      else if c = CHR 0x09 then [CHR 0x5C, CHR ''t'']
      else if c = CHR 0x08 then [CHR 0x5C, CHR ''b'']
      else if c = CHR 0x0C then [CHR 0x5C, CHR ''f'']
      else if ord c < 32 \<or> 126 < ord c then json_u (ord c)
      else [c])"

fun json_escape :: "string \<Rightarrow> string" where
  "json_escape [] = []"
| "json_escape (a # b # c # d # r) =
     (if 240 \<le> ord a \<and> ord a < 248 \<and> is_cont b \<and> is_cont c \<and> is_cont d
      then json_u ((ord a mod 8) * 262144 + cont b * 4096 + cont c * 64 + cont d) @ json_escape r
      else if 224 \<le> ord a \<and> ord a < 240 \<and> is_cont b \<and> is_cont c
      then json_u ((ord a mod 16) * 4096 + cont b * 64 + cont c) @ json_escape (d # r)
      else if 192 \<le> ord a \<and> ord a < 224 \<and> is_cont b
      then json_u ((ord a mod 32) * 64 + cont b) @ json_escape (c # d # r)
      else json_ascii a @ json_escape (b # c # d # r))"
| "json_escape [a, b, c] =
     (if 224 \<le> ord a \<and> ord a < 240 \<and> is_cont b \<and> is_cont c
      then json_u ((ord a mod 16) * 4096 + cont b * 64 + cont c)
      else if 192 \<le> ord a \<and> ord a < 224 \<and> is_cont b
      then json_u ((ord a mod 32) * 64 + cont b) @ json_escape [c]
      else json_ascii a @ json_escape [b, c])"
| "json_escape [a, b] =
     (if 192 \<le> ord a \<and> ord a < 224 \<and> is_cont b
      then json_u ((ord a mod 32) * 64 + cont b)
      else json_ascii a @ json_escape [b])"
| "json_escape [a] = json_ascii a"

definition json_string :: "string \<Rightarrow> string" where
  "json_string s = [CHR 0x22] @ json_escape s @ [CHR 0x22]"

text \<open>Lexicographic comparison of keys, byte by byte (which is code point order).\<close>

fun str_le :: "string \<Rightarrow> string \<Rightarrow> bool" where
  "str_le [] ys = True"
| "str_le (x # xs) [] = False"
| "str_le (x # xs) (y # ys) = (ord x < ord y \<or> (x = y \<and> str_le xs ys))"

fun insert_item :: "string \<times> string \<Rightarrow> (string \<times> string) list \<Rightarrow> (string \<times> string) list" where
  "insert_item kv [] = [kv]"
| "insert_item kv (x # xs) = (if str_le (fst x) (fst kv) then x # insert_item kv xs else kv # x # xs)"

definition sort_items :: "(string \<times> string) list \<Rightarrow> (string \<times> string) list" where
  "sort_items kvs = foldl (\<lambda>acc kv. insert_item kv acc) [] kvs"

fun json_dumps :: "pyval \<Rightarrow> string"
  and json_dumps_list :: "pyval list \<Rightarrow> string list"
  and json_dumps_items :: "(string \<times> pyval) list \<Rightarrow> (string \<times> string) list" where
  "json_dumps PNone = ''null''"
| "json_dumps (PBool b) = (if b then ''true'' else ''false'')"
| "json_dumps (PInt n) = str_int n"
| "json_dumps (PFloat x) = float_repr x"
| "json_dumps (PStr s) = json_string s"
| "json_dumps (PList xs) = ''['' @ join '', '' (json_dumps_list xs) @ '']''"
| "json_dumps (PDict kvs) =
     ''{'' @ join '', '' (map (\<lambda>kv. json_string (fst kv) @ '': '' @ snd kv)
                             (sort_items (json_dumps_items kvs))) @ ''}''"
| "json_dumps_list [] = []"
| "json_dumps_list (x # xs) = json_dumps x # json_dumps_list xs"
| "json_dumps_items [] = []"
| "json_dumps_items ((k, v) # kvs) = (k, json_dumps v) # json_dumps_items kvs"

section \<open>Base64 and hexadecimal codecs\<close>

definition b64_char :: "int \<Rightarrow> char" where
  "b64_char n =
     ''ABCDEFGHIJKLMNOPQRSTUVWXYZabcdefghijklmnopqrstuvwxyz0123456789+/'' ! nat (n mod 64)"

text \<open>\<^verbatim>\<open>base64.b64encode\<close>.\<close>

fun b64encode :: "bytes \<Rightarrow> string" where
  "b64encode [] = []"
| "b64encode [a] =
     [b64_char (ord a div 4), b64_char (ord a mod 4 * 16), CHR ''='', CHR ''='']"
| "b64encode [a, b] =
     [b64_char (ord a div 4), b64_char (ord a mod 4 * 16 + ord b div 16),
      b64_char (ord b mod 16 * 4), CHR ''='']"
| "b64encode (a # b # c # r) =
     [b64_char (ord a div 4), b64_char (ord a mod 4 * 16 + ord b div 16),
      b64_char (ord b mod 16 * 4 + ord c div 64), b64_char (ord c mod 64)] @ b64encode r"

definition b64_value :: "char \<Rightarrow> int option" where
  "b64_value c =
     (let n = ord c
      in if 65 \<le> n \<and> n \<le> 90 then Some (n - 65)
         else if 97 \<le> n \<and> n \<le> 122 then Some (n - 71)
         else if 48 \<le> n \<and> n \<le> 57 then Some (n + 4)
         else if n = 43 then Some 62
         else if n = 47 then Some 63
         else None)"

text \<open>
  \<^verbatim>\<open>binascii.a2b_base64\<close> in its default, non-strict mode: characters outside the
  alphabet are skipped; a pad character ends the input once the current quad holds at
  least two data characters and the pads complete it; input that ends inside a quad is an
  error. The arguments are the position in the quad, the bits left over from the previous
  character, the number of pads seen since the last data character, the remaining input
  and the bytes produced so far.
\<close>

fun a2b_base64 :: "int \<Rightarrow> int \<Rightarrow> int \<Rightarrow> string \<Rightarrow> bytes \<Rightarrow> py_error + bytes" where
  "a2b_base64 quad_pos leftchar pads [] out =
     (if quad_pos \<noteq> 0 then Inl BinasciiError else Inr out)"
| "a2b_base64 quad_pos leftchar pads (c # cs) out =
     (if c = CHR ''='' then
        (if 2 \<le> quad_pos \<and> 4 \<le> quad_pos + (pads + 1) then Inr out
         else a2b_base64 quad_pos leftchar (if 2 \<le> quad_pos then pads + 1 else pads) cs out)
      else case b64_value c of
          None \<Rightarrow> a2b_base64 quad_pos leftchar pads cs out
        | Some v \<Rightarrow>
            if quad_pos = 0 then a2b_base64 1 v 0 cs out
            else if quad_pos = 1 then
              a2b_base64 2 (v mod 16) 0 cs (out @ [byte (leftchar * 4 + v div 16)])
            else if quad_pos = 2 then
              a2b_base64 3 (v mod 4) 0 cs (out @ [byte (leftchar * 16 + v div 4)])
            else a2b_base64 0 0 0 cs (out @ [byte (leftchar * 64 + v)]))"

definition is_ascii :: "string \<Rightarrow> bool" where
  "is_ascii s = list_all (\<lambda>c. ord c < 128) s"

text \<open>
  \<^verbatim>\<open>base64.b64decode(s)\<close> for a \<^verbatim>\<open>str\<close>: the text must be ASCII (\<^verbatim>\<open>ValueError\<close> otherwise),
  then \<^verbatim>\<open>a2b_base64\<close> decodes it.
\<close>

definition b64decode :: "string \<Rightarrow> py_error + bytes" where
  "b64decode s = (if is_ascii s then a2b_base64 0 0 0 s [] else Inl ValueError)"

definition hex_value :: "char \<Rightarrow> int option" where
  "hex_value c =
     (let n = ord c
      in if 48 \<le> n \<and> n \<le> 57 then Some (n - 48)
         else if 97 \<le> n \<and> n \<le> 102 then Some (n - 87)
         else if 65 \<le> n \<and> n \<le> 70 then Some (n - 55)
         else None)"

definition is_space :: "char \<Rightarrow> bool" where
  "is_space c = (ord c = 32 \<or> (9 \<le> ord c \<and> ord c \<le> 13))"

text \<open>
  \<^verbatim>\<open>bytes.fromhex(s)\<close>: ASCII whitespace before a pair of digits is skipped; anything
  else that is not a pair of hexadecimal digits raises \<^verbatim>\<open>ValueError\<close>.
\<close>

fun fromhex :: "string \<Rightarrow> py_error + bytes" where
  "fromhex [] = Inr []"
| "fromhex [c] = (if is_space c then Inr [] else Inl ValueError)"
| "fromhex (c # d # r) =
     (if is_space c then fromhex (d # r)
      else case (hex_value c, hex_value d) of
          (Some h, Some l) \<Rightarrow>
            (case fromhex r of Inl e \<Rightarrow> Inl e | Inr bs \<Rightarrow> Inr (byte (16 * h + l) # bs))
        | _ \<Rightarrow> Inl ValueError)"

text \<open>\<^verbatim>\<open>bytes.hex()\<close>.\<close>

definition bytes_hex :: "bytes \<Rightarrow> string" where
  "bytes_hex bs = concat (map (\<lambda>c. hex2 (ord c)) bs)"

section \<open>Worker identity (\<^verbatim>\<open>WorkerKeypair\<close>)\<close>

text \<open>
  What the module takes from its surroundings: the Ed25519 primitives of the
  \<^verbatim>\<open>cryptography\<close> package when it can be imported (\<^verbatim>\<open>ED25519_AVAILABLE\<close>), the process
  environment, the operating system's random bytes and the detected hardware description.
\<close>

record ed25519_lib =
  ed_public :: "bytes \<Rightarrow> bytes"
  ed_sign :: "bytes \<Rightarrow> bytes \<Rightarrow> bytes"

text \<open>
  \<^verbatim>\<open>psutil_probe\<close> is \<^verbatim>\<open>None\<close> when \<^verbatim>\<open>psutil\<close> is missing or one of its calls raises; otherwise
  it holds the logical and physical core counts (each an integer or \<^verbatim>\<open>None\<close>) and the total
  memory in bytes.
\<close>

record sys_env =
  ed25519 :: "ed25519_lib option"
  getenv :: "string \<Rightarrow> string option"
  token_bytes :: "nat \<Rightarrow> bytes"
  psutil_probe :: "(pyval \<times> pyval \<times> int) option"
  platform_platform :: string
  platform_processor :: string

record WorkerKeypair =
  node_id :: string
  ed_keypair :: bool
  private_key_bytes :: bytes
  public_key_bytes :: bytes

definition upper_char :: "char \<Rightarrow> char" where
  "upper_char c = (if 97 \<le> ord c \<and> ord c \<le> 122 then byte (ord c - 32) else c)"

definition str_upper :: "string \<Rightarrow> string" where
  "str_upper s = map upper_char s"

definition dash_to_underscore :: "string \<Rightarrow> string" where
  "dash_to_underscore s = map (\<lambda>c. if c = CHR ''-'' then CHR ''_'' else c) s"

text \<open>\<^verbatim>\<open>a or b\<close> on two optional strings.\<close>

definition str_or :: "string option \<Rightarrow> string option \<Rightarrow> string option" where
  "str_or a b = (case a of Some s \<Rightarrow> if s \<noteq> [] then a else b | None \<Rightarrow> b)"

definition private_key_env :: "sys_env \<Rightarrow> string \<Rightarrow> string option" where
  "private_key_env env nid =
     (let stem = dash_to_underscore (str_upper nid)
      in str_or (getenv env (''WORKER_'' @ stem @ ''_PRIVATE_KEY''))
                (getenv env (stem @ ''_PRIVATE_KEY'')))"

text \<open>The nested \<^verbatim>\<open>try\<close> chain that turns a configured secret into key bytes.\<close>

definition decode_private_key :: "string \<Rightarrow> bytes" where
  "decode_private_key s =
     (case b64decode s of
        Inr bs \<Rightarrow> bs
      | Inl _ \<Rightarrow>
          (case fromhex s of
             Inr bs \<Rightarrow> bs
           | Inl _ \<Rightarrow> take 32 (encode_utf8 s)))"

definition configured_secret :: "sys_env \<Rightarrow> string \<Rightarrow> string option" where
  "configured_secret env nid =
     (case private_key_env env nid of
        Some s \<Rightarrow> if s \<noteq> [] then Some s else None
      | None \<Rightarrow> None)"

text \<open>
  \<^verbatim>\<open>WorkerKeypair.__init__\<close>. A configured secret goes through the decode chain; without
  one, 32 fresh random bytes become the key. With the Ed25519 package, a key read from the
  configuration is loaded by \<^verbatim>\<open>from_private_bytes\<close>, which accepts exactly 32 bytes and
  raises \<^verbatim>\<open>ValueError\<close> otherwise; without the package the public key is the SHA-256
  digest of the private bytes.
\<close>

definition WorkerKeypair_init :: "sys_env \<Rightarrow> string \<Rightarrow> py_error + WorkerKeypair" where
  "WorkerKeypair_init env nid =
     (case configured_secret env nid of
        Some s \<Rightarrow>
          (let priv = decode_private_key s
           in case ed25519 env of
                Some lib \<Rightarrow>
                  if length priv = 32
                  then Inr \<lparr>node_id = nid, ed_keypair = True, private_key_bytes = priv,
                            public_key_bytes = ed_public lib priv\<rparr>
                  else Inl ValueError
              | None \<Rightarrow>
                  Inr \<lparr>node_id = nid, ed_keypair = False, private_key_bytes = priv,
                       public_key_bytes = take 32 (sha256_digest priv)\<rparr>)
      | None \<Rightarrow>
          (let priv = token_bytes env 32
           in case ed25519 env of
                Some lib \<Rightarrow>
                  Inr \<lparr>node_id = nid, ed_keypair = True, private_key_bytes = priv,
                       public_key_bytes = ed_public lib priv\<rparr>
              | None \<Rightarrow>
                  Inr \<lparr>node_id = nid, ed_keypair = False, private_key_bytes = priv,
                       public_key_bytes = take 32 (sha256_digest priv)\<rparr>))"

definition sign :: "sys_env \<Rightarrow> WorkerKeypair \<Rightarrow> bytes \<Rightarrow> bytes" where
  "sign env kp message =
     (case ed25519 env of
        Some lib \<Rightarrow>
          if ed_keypair kp then ed_sign lib (private_key_bytes kp) message
          else sha256_digest (private_key_bytes kp @ message)
      | None \<Rightarrow> sha256_digest (private_key_bytes kp @ message))"

definition get_public_key_base64 :: "WorkerKeypair \<Rightarrow> string" where
  "get_public_key_base64 kp = b64encode (public_key_bytes kp)"

definition get_public_key_hex :: "WorkerKeypair \<Rightarrow> string" where
  "get_public_key_hex kp = bytes_hex (public_key_bytes kp)"

definition get_sui_address :: "WorkerKeypair \<Rightarrow> string" where
  "get_sui_address kp = ''0x'' @ take 64 (bytes_hex (public_key_bytes kp))"

definition get_hardware_info :: "sys_env \<Rightarrow> pydict" where
  "get_hardware_info env =
     (case psutil_probe env of
        Some (logical, physical, mem_total) \<Rightarrow>
          [(''cpu_cores'', logical),
           (''cpu_physical_cores'', physical),
           (''memory_gb'', PFloat (py_round (to_float (mem_total, 1073741824)) 2)),
           (''platform'', PStr (platform_platform env)),
           (''processor'', PStr (if platform_processor env \<noteq> [] then platform_processor env
                                  else ''unknown''))]
      | None \<Rightarrow>
          [(''cpu_cores'', PInt 1),
           (''cpu_physical_cores'', PInt 1),
           (''memory_gb'', PInt 0),
           (''platform'', PStr (platform_platform env)),
           (''processor'', PStr ''unknown'')])"

section \<open>Commitments, attestations and the transport encoding\<close>

definition create_commit_hash :: "string \<Rightarrow> string" where
  "create_commit_hash plaintext_data = sha256_hash plaintext_data"

definition verify_commit :: "string \<Rightarrow> string \<Rightarrow> pydict" where
  "verify_commit plaintext_data commit_hash =
     (let computed_hash = sha256_hash plaintext_data;
          match = (computed_hash = commit_hash)
      in [(''match'', PBool match),
          (''computedHash'', PStr computed_hash),
          (''commitHash'', PStr commit_hash),
          (''verified'', PBool match)])"

text \<open>Truth value of an optional dictionary: \<^verbatim>\<open>None\<close> and \<^verbatim>\<open>{}\<close> are both false.\<close>

definition dict_truthy :: "pydict option \<Rightarrow> bool" where
  "dict_truthy d = (case d of None \<Rightarrow> False | Some kvs \<Rightarrow> kvs \<noteq> [])"

definition loss_history_hash_of :: "pyfloat list \<Rightarrow> string" where
  "loss_history_hash_of loss_history = sha256_hash (join '','' (map float_repr loss_history))"

definition hardware_lines :: "pydict option \<Rightarrow> string list" where
  "hardware_lines hardware_info =
     (case hardware_info of
        Some d \<Rightarrow> if d \<noteq> [] then [''hardware:'' @ json_dumps (PDict d)] else []
      | None \<Rightarrow> [])"

definition commit_lines :: "pydict option \<Rightarrow> string list" where
  "commit_lines commit_verified =
     (case commit_verified of
        Some d \<Rightarrow>
          if d \<noteq> []
          then [''commitVerified:'' @ py_str (dict_get d ''match'' (PBool False)),
                ''commitHash:'' @ py_str (dict_get d ''commitHash'' (PStr []))]
          else []
      | None \<Rightarrow> [])"

definition message_parts ::
  "string \<Rightarrow> string \<Rightarrow> string \<Rightarrow> string \<Rightarrow> string \<Rightarrow> string \<Rightarrow> int \<Rightarrow> int \<Rightarrow> int
     \<Rightarrow> pydict option \<Rightarrow> pydict option \<Rightarrow> string list" where
  "message_parts nid weights_hash loss_history_hash started_at finished_at global_model_hash
       num_samples epoch_count random_seed hardware_info commit_verified =
     [''nodeId:'' @ nid,
      ''weightsHash:'' @ weights_hash,
      ''lossHistoryHash:'' @ loss_history_hash,
      ''startedAt:'' @ started_at,
      ''finishedAt:'' @ finished_at,
      ''globalModelHash:'' @ global_model_hash,
      ''numSamples:'' @ str_int num_samples,
      ''epochCount:'' @ str_int epoch_count,
      ''randomSeed:'' @ str_int random_seed]
     @ hardware_lines hardware_info
     @ commit_lines commit_verified"

record attestation =
  message :: string
  signature :: string
  publicKey :: string
  signerPubKey :: string
  weightsHash :: string
  lossHistoryHash :: string
  suiAddress :: string
  hardwareInfo :: pydict
  commitVerified :: "pydict option"

definition create_attestation ::
  "sys_env \<Rightarrow> string \<Rightarrow> string \<Rightarrow> pyfloat list \<Rightarrow> string \<Rightarrow> string \<Rightarrow> string \<Rightarrow> int \<Rightarrow> int
     \<Rightarrow> int \<Rightarrow> WorkerKeypair \<Rightarrow> pydict option \<Rightarrow> pydict option \<Rightarrow> attestation" where
  "create_attestation env nid weights_hash loss_history started_at finished_at
       global_model_hash num_samples epoch_count random_seed keypair hardware_info
       commit_verified =
     (let loss_history_hash = loss_history_hash_of loss_history;
          msg = join [CHR 0x0A]
                  (message_parts nid weights_hash loss_history_hash started_at finished_at
                     global_model_hash num_samples epoch_count random_seed hardware_info
                     commit_verified);
          message_bytes = encode_utf8 msg;
          signature_bytes = sign env keypair message_bytes;
          signature_base64 = b64encode signature_bytes;
          public_key_base64 = get_public_key_base64 keypair;
          sui_address = get_sui_address keypair
      in \<lparr>message = msg,
          signature = signature_base64,
          publicKey = public_key_base64,
          signerPubKey = public_key_base64,
          weightsHash = weights_hash,
          lossHistoryHash = loss_history_hash,
          suiAddress = sui_address,
          hardwareInfo = (if dict_truthy hardware_info then the hardware_info
                          else get_hardware_info env),
          commitVerified = commit_verified\<rparr>)"

definition opt_dict :: "pydict option \<Rightarrow> pyval" where
  "opt_dict d = (case d of None \<Rightarrow> PNone | Some kvs \<Rightarrow> PDict kvs)"

text \<open>The attestation as the dictionary the function returns.\<close>

definition attestation_dict :: "attestation \<Rightarrow> pydict" where
  "attestation_dict a =
     [(''message'', PStr (message a)),
      (''signature'', PStr (signature a)),
      (''publicKey'', PStr (publicKey a)),
      (''signerPubKey'', PStr (signerPubKey a)),
      (''weightsHash'', PStr (weightsHash a)),
      (''lossHistoryHash'', PStr (lossHistoryHash a)),
      (''suiAddress'', PStr (suiAddress a)),
      (''hardwareInfo'', PDict (hardwareInfo a)),
      (''commitVerified'', opt_dict (commitVerified a))]"

text \<open>\<^verbatim>\<open>encrypt_for_coordinator\<close>: an empty session key counts as none.\<close>

definition encrypt_for_coordinator :: "pyval \<Rightarrow> string option \<Rightarrow> pydict" where
  "encrypt_for_coordinator data session_key =
     (let data_json = json_dumps data
      in if (case session_key of Some k \<Rightarrow> k \<noteq> [] | None \<Rightarrow> False)
         then [(''encrypted'', PBool True),
               (''data'', PStr (b64encode (encode_utf8 data_json))),
               (''encryption'', PStr ''base64'')]
         else [(''encrypted'', PBool False),
               (''data'', PStr data_json)])"

section \<open>The training engine\<close>

text \<open>
  Whitespace and line boundaries of \<^verbatim>\<open>str.splitlines\<close> and \<^verbatim>\<open>str.strip\<close>, read off the UTF-8
  bytes: the number of bytes of the whitespace character at the head of the text, and
  whether it ends a line.
\<close>

definition space_head :: "string \<Rightarrow> (nat \<times> bool) option" where
  "space_head s =
     (case map ord (take 3 s) of
        [] \<Rightarrow> None
      | a # r \<Rightarrow>
          if a = 9 \<or> a = 31 \<or> a = 32 then Some (1, False)
          else if (10 \<le> a \<and> a \<le> 13) \<or> (28 \<le> a \<and> a \<le> 30) then Some (1, True)
          else if a = 194 \<and> take 1 r = [133] then Some (2, True)
          else if a = 194 \<and> take 1 r = [160] then Some (2, False)
          else if a = 225 \<and> r = [154, 128] then Some (3, False)
          else if a = 226 \<and> (r = [128, 168] \<or> r = [128, 169]) then Some (3, True)
          else if a = 226 \<and> length r = 2 \<and> hd r = 128
                  \<and> ((128 \<le> last r \<and> last r \<le> 138) \<or> last r = 175)
            then Some (3, False)
          else if a = 226 \<and> r = [129, 159] then Some (3, False)
          else if a = 227 \<and> r = [128, 128] then Some (3, False)
          else None)"

text \<open>
  \<^verbatim>\<open>len([l for l in csv_text.splitlines() if l.strip()])\<close>: the number of lines that hold a
  character other than whitespace. The flag says whether the current line has one.
\<close>

function count_lines :: "string \<Rightarrow> bool \<Rightarrow> int" where
  "count_lines [] seen = (if seen then 1 else 0)"
| "count_lines (c # cs) seen =
     (case space_head (c # cs) of
        Some (n, brk) \<Rightarrow>
          if brk then (if seen then 1 else 0) + count_lines (drop (n - 1) cs) False
          else count_lines (drop (n - 1) cs) seen
      | None \<Rightarrow> count_lines cs True)"
  by pat_completeness auto
termination
  by (relation "measure (\<lambda>(s, seen). length s)") auto

text \<open>
  The \<^verbatim>\<open>random\<close> module: seeding, \<^verbatim>\<open>random()\<close> and \<^verbatim>\<open>randint(a, b)\<close> over a generator state.
\<close>

record 's py_random =
  rnd_seed :: "int \<Rightarrow> 's"
  rnd_random :: "'s \<Rightarrow> pyfloat \<times> 's"
  rnd_randint :: "int \<Rightarrow> int \<Rightarrow> 's \<Rightarrow> int \<times> 's"

record http_request =
  url :: string
  timeout :: "pyfloat option"
  json_body :: pydict

text \<open>
  The state outside the program that its calls change: the generator of the \<^verbatim>\<open>random\<close>
  module, the durations handed to \<^verbatim>\<open>time.sleep\<close>, the number of clock readings taken and the
  HTTP requests sent.
\<close>

record 's world =
  rng_state :: 's
  slept :: "pyfloat list"
  clock :: nat
  http_log :: "http_request list"

record train_stats =
  num_samples :: int
  loss_history :: "pyfloat list"
  epoch_loss_hashes :: "string list"
  epoch_gradient_norm_hashes :: "string list"
  random_challenge_seed :: int

record loop_state =
  loss :: pyfloat
  history :: "pyfloat list"
  loss_hashes :: "string list"
  gradient_norm_hashes :: "string list"

definition fnegative :: "pyfloat \<Rightarrow> bool" where
  "fnegative x = (case x of Flt m e \<Rightarrow> m < 0)"

definition loss_text :: "int \<Rightarrow> pyfloat \<Rightarrow> int \<Rightarrow> int \<Rightarrow> string" where
  "loss_text epoch loss_rounded seed challenge =
     ''epoch:'' @ str_int epoch @ '':loss:'' @ float_repr loss_rounded
       @ '':seed:'' @ str_int seed @ '':challenge:'' @ str_int challenge"

definition grad_norm_text :: "int \<Rightarrow> pyfloat \<Rightarrow> int \<Rightarrow> int \<Rightarrow> string" where
  "grad_norm_text epoch gradient_norm seed challenge =
     ''epoch:'' @ str_int epoch @ '':grad_norm:'' @ float_repr gradient_norm
       @ '':seed:'' @ str_int seed @ '':challenge:'' @ str_int challenge"

text \<open>
  The loop body, once per remaining epoch. \<^verbatim>\<open>time.sleep\<close> raises \<^verbatim>\<open>ValueError\<close> on a negative
  duration and the division raises \<^verbatim>\<open>ZeroDivisionError\<close> on a zero denominator.
\<close>

fun train_epochs ::
  "'s py_random \<Rightarrow> int \<Rightarrow> int \<Rightarrow> nat \<Rightarrow> int \<Rightarrow> loop_state \<Rightarrow> 's world
     \<Rightarrow> (py_error + loop_state) \<times> 's world" where
  "train_epochs R seed challenge 0 epoch st w = (Inr st, w)"
| "train_epochs R seed challenge (Suc n) epoch st w =
     (let (r1, s1) = rnd_random R (rng_state w);
          pause = fadd (dec 3 1) (fmul r1 (dec 2 1))
      in if fnegative pause then (Inl ValueError, w\<lparr>rng_state := s1\<rparr>)
         else
           let (r2, s2) = rnd_random R s1;
               w' = w\<lparr>rng_state := s2, slept := slept w @ [pause]\<rparr>;
               loss' = fmul (loss st) (fadd (dec 82 2) (fmul r2 (dec 4 2)));
               loss_rounded = py_round loss' 4;
               loss_hash = sha256_hash (loss_text epoch loss_rounded seed challenge)
           in case fdiv (dec 1 0) (fadd loss' (dec 1 2)) of
                Inl e \<Rightarrow> (Inl e, w')
              | Inr gradient_norm \<Rightarrow>
                  train_epochs R seed challenge n (epoch + 1)
                    \<lparr>loss = loss',
                     history = history st @ [loss_rounded],
                     loss_hashes = loss_hashes st @ [loss_hash],
                     gradient_norm_hashes = gradient_norm_hashes st
                       @ [sha256_hash (grad_norm_text epoch gradient_norm seed challenge)]\<rparr>
                    w')"

definition epoch_total :: "int \<Rightarrow> nat" where
  "epoch_total epochs = nat (max 1 (min epochs 10))"

definition train_on_csv ::
  "'s py_random \<Rightarrow> string \<Rightarrow> int \<Rightarrow> int \<Rightarrow> 's world \<Rightarrow> (py_error + train_stats) \<times> 's world" where
  "train_on_csv R csv_text epochs seed w =
     (let s0 = rnd_seed R seed;
          samples = max 10 (count_lines csv_text False - 1);
          (r0, s1) = rnd_random R s0;
          loss0 = fadd (dec 1 0) (fmul r0 (dec 2 1));
          (challenge, s2) = rnd_randint R 1000000 9999999 s1
      in case train_epochs R seed challenge (epoch_total epochs) 0
                \<lparr>loss = loss0, history = [], loss_hashes = [], gradient_norm_hashes = []\<rparr>
                (w\<lparr>rng_state := s2\<rparr>) of
           (Inl e, w') \<Rightarrow> (Inl e, w')
         | (Inr st, w') \<Rightarrow>
             (Inr \<lparr>num_samples = samples,
                   loss_history = history st,
                   epoch_loss_hashes = loss_hashes st,
                   epoch_gradient_norm_hashes = gradient_norm_hashes st,
                   random_challenge_seed = challenge\<rparr>, w'))"

section \<open>The worker's \<^verbatim>\<open>/train\<close> round\<close>

record TrainShardRequest =
  dataShard :: string
  globalModelHash :: string
  epochCount :: int
  nodeId :: string
  randomSeed :: int
  encryptedData :: "string option"
  sessionKey :: "string option"
  txBytes :: "string option"
  userAddress :: "string option"
  commitHash :: "string option"

text \<open>
  What a \<^verbatim>\<open>POST\<close> to the coordinator can come to: the request itself raises (a timeout, a
  refused connection), \<^verbatim>\<open>raise_for_status\<close> raises on the status code, \<^verbatim>\<open>json()\<close> raises on
  the body, or the body parses to a value. Each failure carries the text of its exception.
\<close>

datatype http_reply =
    RequestError string
  | StatusError string
  | InvalidJson string
  | JsonBody pyval

text \<open>
  The handler's surroundings: the system, the random module, the coordinator, the clock
  (its readings in order), the CSV analysis, and the two module-level values created at
  import time.
\<close>

record 's service =
  sys :: sys_env
  rnd :: "'s py_random"
  coordinator_url :: string
  post :: "http_request \<Rightarrow> http_reply"
  utcnow :: "nat \<Rightarrow> string"
  analyze :: "string \<Rightarrow> py_error + pyval"
  worker_keypair :: WorkerKeypair
  worker_hardware_info :: pydict

datatype response =
    Body pydict
  | BodyWithStatus pydict int

definition str_truthy :: "string option \<Rightarrow> bool" where
  "str_truthy s = (case s of None \<Rightarrow> False | Some t \<Rightarrow> t \<noteq> [])"

definition opt_str :: "string option \<Rightarrow> pyval" where
  "opt_str s = (case s of None \<Rightarrow> PNone | Some t \<Rightarrow> PStr t)"

text \<open>\<^verbatim>\<open>datetime.utcnow().isoformat()\<close>: the next reading of the clock.\<close>

definition now :: "'s service \<Rightarrow> 's world \<Rightarrow> string \<times> 's world" where
  "now svc w = (utcnow svc (clock w), w\<lparr>clock := Suc (clock w)\<rparr>)"

text \<open>\<^verbatim>\<open>value[key]\<close> for a string key, with the text of the exception when it raises.\<close>

definition subscript :: "pyval \<Rightarrow> string \<Rightarrow> string + pyval" where
  "subscript v k =
     (case v of
        PDict d \<Rightarrow> (case map_of d k of Some x \<Rightarrow> Inr x | None \<Rightarrow> Inl (repr_str k))
      | PList xs \<Rightarrow> Inl ''list indices must be integers or slices, not str''
      | PStr s \<Rightarrow> Inl (''string indices must be integers, not '' @ repr_str ''str'')
      | PNone \<Rightarrow> Inl (repr_str ''NoneType'' @ '' object is not subscriptable'')
      | PBool b \<Rightarrow> Inl (repr_str ''bool'' @ '' object is not subscriptable'')
      | PInt n \<Rightarrow> Inl (repr_str ''int'' @ '' object is not subscriptable'')
      | PFloat x \<Rightarrow> Inl (repr_str ''float'' @ '' object is not subscriptable''))"

definition decrypt_request :: "'s service \<Rightarrow> TrainShardRequest \<Rightarrow> http_request" where
  "decrypt_request svc req =
     \<lparr>url = coordinator_url svc @ ''/api/decrypt'',
      timeout = Some (dec 300 1),
      json_body = [(''encryptedData'', opt_str (encryptedData req)),
                   (''sessionKey'', opt_str (sessionKey req)),
                   (''txBytes'', opt_str (txBytes req)),
                   (''userAddress'', opt_str (userAddress req))]\<rparr>"

text \<open>
  The body of the \<^verbatim>\<open>try\<close> block: the audit entry, the call, the status check, the parse, the
  lookup of \<^verbatim>\<open>decryptedData\<close>, the commitment check and the closing audit entry. An
  exception yields its text, with the audit log and the world as they were when it was
  raised. \<^verbatim>\<open>sha256_hash\<close> on a value that is not a string raises \<^verbatim>\<open>TypeError\<close>.
\<close>

definition decrypt_block ::
  "'s service \<Rightarrow> TrainShardRequest \<Rightarrow> pydict list \<Rightarrow> 's world
     \<Rightarrow> (string \<times> pydict list + pyval \<times> pydict option \<times> pydict list) \<times> 's world" where
  "decrypt_block svc req audit w =
     (let (t1, w1) = now svc w;
          audit1 = audit @ [[(''event'', PStr ''decrypt_permission_request''),
                             (''timestamp'', PStr t1),
                             (''hasTxBytes'', PBool (str_truthy (txBytes req)))]];
          w2 = w1\<lparr>http_log := http_log w1 @ [decrypt_request svc req]\<rparr>
      in case post svc (decrypt_request svc req) of
           RequestError e \<Rightarrow> (Inl (e, audit1), w2)
         | StatusError e \<Rightarrow> (Inl (e, audit1), w2)
         | InvalidJson e \<Rightarrow> (Inl (e, audit1), w2)
         | JsonBody decrypt_result \<Rightarrow>
             (case subscript decrypt_result ''decryptedData'' of
                Inl e \<Rightarrow> (Inl (e, audit1), w2)
              | Inr data_shard \<Rightarrow>
                  if str_truthy (commitHash req) then
                    (case data_shard of
                       PStr plaintext \<Rightarrow>
                         (let commit_verified = verify_commit plaintext (the (commitHash req));
                              (t2, w3) = now svc w2;
                              audit2 = audit1 @ [[(''event'', PStr ''commit_verification''),
                                                  (''timestamp'', PStr t2),
                                                  (''match'', dict_get commit_verified ''match'' PNone),
                                                  (''commitHash'', PStr (the (commitHash req)))]];
                              (t3, w4) = now svc w3
                          in (Inr (data_shard, Some commit_verified,
                                   audit2 @ [[(''event'', PStr ''decrypt_permission_granted''),
                                              (''timestamp'', PStr t3)]]), w4))
                     | _ \<Rightarrow> (Inl (''object supporting the buffer API required'', audit1), w2))
                  else
                    (let (t3, w3) = now svc w2
                     in (Inr (data_shard, None,
                              audit1 @ [[(''event'', PStr ''decrypt_permission_granted''),
                                         (''timestamp'', PStr t3)]]), w3))))"

text \<open>\<^verbatim>\<open>analyze_csv_shard\<close> starts with \<^verbatim>\<open>csv_text.splitlines()\<close>, which only a string has.\<close>

definition analyze_csv_shard :: "'s service \<Rightarrow> pyval \<Rightarrow> py_error + pyval" where
  "analyze_csv_shard svc data_shard =
     (case data_shard of PStr s \<Rightarrow> analyze svc s | _ \<Rightarrow> Inl AttributeError)"

text \<open>
  \<^verbatim>\<open>train_on_csv\<close> as the handler calls it: the argument is whatever the decryption step
  delivered; on a value that is not a string, \<^verbatim>\<open>splitlines\<close> raises after the generator has
  been seeded.
\<close>

definition train_csv ::
  "'s service \<Rightarrow> pyval \<Rightarrow> int \<Rightarrow> int \<Rightarrow> 's world \<Rightarrow> (py_error + train_stats) \<times> 's world" where
  "train_csv svc data_shard epochs seed w =
     (case data_shard of
        PStr csv_text \<Rightarrow> train_on_csv (rnd svc) csv_text epochs seed w
      | _ \<Rightarrow> (Inl AttributeError, w\<lparr>rng_state := rnd_seed (rnd svc) seed\<rparr>))"

definition weights_data_of :: "TrainShardRequest \<Rightarrow> train_stats \<Rightarrow> string" where
  "weights_data_of req stats =
     nodeId req @ '':'' @ globalModelHash req @ '':''
       @ py_repr (PList (map PFloat (loss_history stats))) @ '':''
       @ str_int (num_samples stats) @ '':'' @ str_int (random_challenge_seed stats)"

definition build_attestation ::
  "'s service \<Rightarrow> TrainShardRequest \<Rightarrow> train_stats \<Rightarrow> string \<Rightarrow> string \<Rightarrow> pydict option
     \<Rightarrow> attestation" where
  "build_attestation svc req stats started finished commit_verified =
     create_attestation (sys svc) (nodeId req) (sha256_hash (weights_data_of req stats))
       (loss_history stats) started finished (globalModelHash req) (num_samples stats)
       (epochCount req) (randomSeed req) (worker_keypair svc)
       (Some (worker_hardware_info svc)) commit_verified"

definition update_payload_of ::
  "TrainShardRequest \<Rightarrow> train_stats \<Rightarrow> attestation \<Rightarrow> string \<Rightarrow> string \<Rightarrow> pyval
     \<Rightarrow> pydict list \<Rightarrow> pydict" where
  "update_payload_of req stats att started finished data_insights audit_events =
     [(''nodeId'', PStr (nodeId req)),
      (''suiAddress'', PStr (suiAddress att)),
      (''numSamples'', PInt (num_samples stats)),
      (''deltaWeightsHash'', PStr (''sha256:'' @ take 32 (weightsHash att))),
      (''weightsHash'', PStr (weightsHash att)),
      (''lossHistory'', PList (map PFloat (loss_history stats))),
      (''startedAt'', PStr started),
      (''finishedAt'', PStr finished),
      (''dataInsights'', data_insights),
      (''epochLossHashes'', PList (map PStr (epoch_loss_hashes stats))),
      (''epochGradientNormHashes'', PList (map PStr (epoch_gradient_norm_hashes stats))),
      (''randomChallengeSeed'', PInt (random_challenge_seed stats)),
      (''attestation'', PDict (attestation_dict att)),
      (''auditTrace'', PList (map PDict audit_events))]"

text \<open>
  Everything after the decryption step: analysis, training, the weights hash, the
  attestation, the rest of the audit log and the reply, encoded when a session key came
  with the request. An exception of the analysis or the training is not caught.
\<close>

definition finish_round ::
  "'s service \<Rightarrow> TrainShardRequest \<Rightarrow> string \<Rightarrow> pyval \<Rightarrow> pydict option \<Rightarrow> pydict list
     \<Rightarrow> 's world \<Rightarrow> (py_error + response) \<times> 's world" where
  "finish_round svc req started data_shard commit_verified audit w =
     (case analyze_csv_shard svc data_shard of
        Inl e \<Rightarrow> (Inl e, w)
      | Inr data_insights \<Rightarrow>
          (case train_csv svc data_shard (epochCount req) (randomSeed req) w of
             (Inl e, w1) \<Rightarrow> (Inl e, w1)
           | (Inr stats, w1) \<Rightarrow>
               (let (f0, w2) = now svc w1;
                    (finished, w3) = now svc w2;
                    att = build_attestation svc req stats started finished commit_verified;
                    (t1, w4) = now svc w3;
                    (t2, w5) = now svc w4;
                    (t3, w6) = now svc w5;
                    audit_events = audit @
                      [[(''event'', PStr ''training_complete''),
                        (''timestamp'', PStr finished),
                        (''numSamples'', PInt (num_samples stats)),
                        (''epochs'', PInt (epochCount req))],
                       [(''event'', PStr ''worker_identity''),
                        (''timestamp'', PStr t1),
                        (''suiAddress'', PStr (suiAddress att)),
                        (''hardwareInfo'', PDict (worker_hardware_info svc))],
                       [(''event'', PStr ''update_hash''),
                        (''timestamp'', PStr t2),
                        (''weightsHash'', PStr (weightsHash att)),
                        (''lossHistoryHash'', PStr (lossHistoryHash att))],
                       [(''event'', PStr ''signature_generated''),
                        (''timestamp'', PStr t3),
                        (''signature'', PStr (take 32 (signature att) @ ''...'')),
                        (''publicKey'', PStr (take 32 (publicKey att) @ ''...''))]];
                    update_payload =
                      update_payload_of req stats att started finished data_insights audit_events
                in if str_truthy (sessionKey req)
                   then (Inr (Body [(''encrypted'', PBool True),
                                    (''encryptedUpdate'',
                                       PDict (encrypt_for_coordinator (PDict update_payload)
                                                (sessionKey req)))]), w6)
                   else (Inr (Body update_payload), w6))))"

text \<open>
  The first part of the handler of \<^verbatim>\<open>POST /train\<close>: the start of the audit log and, when
  both \<^verbatim>\<open>encryptedData\<close> and \<^verbatim>\<open>sessionKey\<close> are given, the decryption step with its \<^verbatim>\<open>except\<close>
  branch. The result is either the reply of that branch or the shard to train on, the
  commitment verification and the audit log so far; the start time comes with both.
\<close>

definition start_event :: "TrainShardRequest \<Rightarrow> string \<Rightarrow> pydict" where
  "start_event req started =
     [(''event'', PStr ''training_start''),
      (''timestamp'', PStr started),
      (''nodeId'', PStr (nodeId req)),
      (''globalModelHash'', PStr (globalModelHash req))]"

definition decrypt_failed_reply :: "TrainShardRequest \<Rightarrow> string \<Rightarrow> pydict list \<Rightarrow> string \<Rightarrow> response" where
  "decrypt_failed_reply req e audit t =
     BodyWithStatus
       [(''error'', PStr (''Decryption failed: '' @ e)),
        (''nodeId'', PStr (nodeId req)),
        (''auditEvents'',
           PList (map PDict (audit @ [[(''event'', PStr ''decrypt_failed''),
                                       (''timestamp'', PStr t),
                                       (''error'', PStr e)]])))]
       400"

definition obtain_shard ::
  "'s service \<Rightarrow> TrainShardRequest \<Rightarrow> 's world
     \<Rightarrow> (response + pyval \<times> pydict option \<times> pydict list) \<times> string \<times> 's world" where
  "obtain_shard svc req w =
     (let (started, w0) = now svc w;
          audit_events = [start_event req started]
      in if str_truthy (encryptedData req) \<and> str_truthy (sessionKey req) then
           (case decrypt_block svc req audit_events w0 of
              (Inl (e, audit), w1) \<Rightarrow>
                (let (t, w2) = now svc w1
                 in (Inl (decrypt_failed_reply req e audit t), started, w2))
            | (Inr shard, w1) \<Rightarrow> (Inr shard, started, w1))
         else (Inr (PStr (dataShard req), None, audit_events), started, w0))"

text \<open>The handler of \<^verbatim>\<open>POST /train\<close>.\<close>

definition train ::
  "'s service \<Rightarrow> TrainShardRequest \<Rightarrow> 's world \<Rightarrow> (py_error + response) \<times> 's world" where
  "train svc req w =
     (case obtain_shard svc req w of
        (Inl reply, started, w1) \<Rightarrow> (Inr reply, w1)
      | (Inr (data_shard, commit_verified, audit), started, w1) \<Rightarrow>
          finish_round svc req started data_shard commit_verified audit w1)"

declare sha_blocks.simps [simp del]
declare nat_digits.simps [simp del]
declare bitlen.simps [simp del]
declare strip_twos.simps [simp del]
declare dec_length.simps [simp del]
declare strip_zeros.simps [simp del]

section \<open>Auxiliary notions for the statements\<close>








text \<open>Small environments and a stand-in signature scheme for concrete instances.\<close>

definition example_env :: "string option \<Rightarrow> sys_env" where
  "example_env secret =
     \<lparr>ed25519 = None,
      getenv = (\<lambda>name. if name = ''WORKER_WORKER_1_PRIVATE_KEY'' then secret else None),
      token_bytes = (\<lambda>n. replicate n (CHR 0x07)),
      psutil_probe = None,
      platform_platform = ''Linux'',
      platform_processor = ''''\<rparr>"

definition toy_signer :: ed25519_lib where
  "toy_signer = \<lparr>ed_public = (\<lambda>priv. priv), ed_sign = (\<lambda>priv msg. priv @ msg)\<rparr>"

definition toy_env :: sys_env where
  "toy_env =
     \<lparr>ed25519 = Some toy_signer,
      getenv = (\<lambda>name. None),
      token_bytes = (\<lambda>n. replicate n (CHR 0x07)),
      psutil_probe = None,
      platform_platform = ''Linux'',
      platform_processor = ''''\<rparr>"

definition toy_keypair :: WorkerKeypair where
  "toy_keypair =
     \<lparr>node_id = ''worker-1'', ed_keypair = True,
      private_key_bytes = replicate 32 (CHR 0x07),
      public_key_bytes = replicate 32 (CHR 0x07)\<rparr>"




section \<open>Basic facts about the codecs\<close>

lemma ord_bounds: "0 \<le> ord c \<and> ord c < 256"
proof -
  have "ord c mod 256 = ord c"
    by (simp add: ord_def)
  moreover have "0 \<le> ord c mod 256 \<and> ord c mod 256 < 256"
    by simp
  ultimately show ?thesis
    by simp
qed

lemma byte_ord: "byte (ord c) = c"
  by (simp add: byte_def ord_def)


lemma hex_digit_in: "hex_digit n \<in> set ''0123456789abcdef''"
proof -
  have "nat (n mod 16) < length ''0123456789abcdef''"
    by simp
  then show ?thesis
    unfolding hex_digit_def by (rule nth_mem)
qed

lemma hex_w32_shape:
  "length (hex_w32 w) = 8 \<and> set (hex_w32 w) \<subseteq> set ''0123456789abcdef''"
proof -
  have "[0..<4] = [0, 1, 2, 3::nat]"
    by (simp add: upt_rec)
  then show ?thesis
    using hex_digit_in by (simp add: hex_w32_def hex_byte_def)
qed

lemma sha256_hexdigest_shape:
  "length (sha256_hexdigest m) = 64 \<and> set (sha256_hexdigest m) \<subseteq> set ''0123456789abcdef''"
proof -
  obtain a b c d e f g h where st: "sha_blocks sha_init (sha_pad m) = (a, b, c, d, e, f, g, h)"
    by (metis prod_cases3)
  show ?thesis
    unfolding sha256_hexdigest_def st using hex_w32_shape by simp
qed

lemma sha256_hash_shape:
  "length (sha256_hash s) = 64 \<and> set (sha256_hash s) \<subseteq> set ''0123456789abcdef''"
  unfolding sha256_hash_def by (rule sha256_hexdigest_shape)

lemma b64_alphabet:
  "list_all (\<lambda>n. b64_value (b64_char n) = Some n \<and> b64_char n \<noteq> CHR ''='' \<and> ord (b64_char n) < 128)
     [0..63]"
  by code_simp

lemma b64_char_props:
  assumes "0 \<le> n" "n < 64"
  shows "b64_value (b64_char n) = Some n" "b64_char n \<noteq> CHR ''=''" "ord (b64_char n) < 128"
proof -
  have "n \<in> set [0..63]"
    using assms by simp
  then have "b64_value (b64_char n) = Some n \<and> b64_char n \<noteq> CHR ''='' \<and> ord (b64_char n) < 128"
    using b64_alphabet unfolding list_all_iff by blast
  then show "b64_value (b64_char n) = Some n" "b64_char n \<noteq> CHR ''=''" "ord (b64_char n) < 128"
    by simp_all
qed

lemma a2b_data:
  assumes "0 \<le> n" "n < 64"
  shows "a2b_base64 0 l p (b64_char n # cs) out = a2b_base64 1 n 0 cs out"
    and "a2b_base64 1 l p (b64_char n # cs) out
           = a2b_base64 2 (n mod 16) 0 cs (out @ [byte (l * 4 + n div 16)])"
    and "a2b_base64 2 l p (b64_char n # cs) out
           = a2b_base64 3 (n mod 4) 0 cs (out @ [byte (l * 16 + n div 4)])"
    and "a2b_base64 3 l p (b64_char n # cs) out
           = a2b_base64 0 0 0 cs (out @ [byte (l * 64 + n)])"
  using b64_char_props[OF assms] by simp_all

lemma a2b_pads:
  "a2b_base64 2 l 0 [CHR ''='', CHR ''=''] out = Inr out"
  "a2b_base64 3 l 0 [CHR ''=''] out = Inr out"
  by simp_all

lemma divmod_pack:
  fixes u t :: int
  assumes "0 \<le> t" "t < 16"
  shows "(u * 16 + t) div 16 = u" "(u * 16 + t) mod 16 = t"
  using assms by simp_all

lemma divmod_pack4:
  fixes u t :: int
  assumes "0 \<le> t" "t < 4"
  shows "(u * 4 + t) div 4 = u" "(u * 4 + t) mod 4 = t"
  using assms by simp_all

lemma byte_parts:
  fixes y :: int
  assumes "0 \<le> y" "y < 256"
  shows "0 \<le> y div 16 \<and> y div 16 < 16" "0 \<le> y div 64 \<and> y div 64 < 4"
        "0 \<le> y div 4 \<and> y div 4 < 64"
  using assms by linarith+

lemma sextets:
  fixes x y z :: int
  assumes "0 \<le> x" "x < 256" "0 \<le> y" "y < 256" "0 \<le> z" "z < 256"
  shows "0 \<le> x div 4 \<and> x div 4 < 64"
    and "0 \<le> x mod 4 * 16 + y div 16 \<and> x mod 4 * 16 + y div 16 < 64"
    and "0 \<le> y mod 16 * 4 + z div 64 \<and> y mod 16 * 4 + z div 64 < 64"
    and "0 \<le> z mod 64 \<and> z mod 64 < 64"
    and "x div 4 * 4 + (x mod 4 * 16 + y div 16) div 16 = x"
    and "(x mod 4 * 16 + y div 16) mod 16 * 16 + (y mod 16 * 4 + z div 64) div 4 = y"
    and "(y mod 16 * 4 + z div 64) mod 4 * 64 + z mod 64 = z"
proof -
  have x4: "0 \<le> x mod 4" "x mod 4 \<le> 3"
    using pos_mod_bound[of 4 x] by simp_all
  have y16: "0 \<le> y mod 16" "y mod 16 \<le> 15"
    using pos_mod_bound[of 16 y] by simp_all
  note yd = byte_parts(1)[OF assms(3,4)] and zd = byte_parts(2)[OF assms(5,6)]
  show "0 \<le> x div 4 \<and> x div 4 < 64"
    by (rule byte_parts(3)[OF assms(1,2)])
  show "0 \<le> x mod 4 * 16 + y div 16 \<and> x mod 4 * 16 + y div 16 < 64"
    using x4 yd by linarith
  show "0 \<le> y mod 16 * 4 + z div 64 \<and> y mod 16 * 4 + z div 64 < 64"
    using y16 zd by linarith
  show "0 \<le> z mod 64 \<and> z mod 64 < 64"
    by simp
  have "(x mod 4 * 16 + y div 16) div 16 = x mod 4"
    using yd by (simp add: divmod_pack(1))
  then show "x div 4 * 4 + (x mod 4 * 16 + y div 16) div 16 = x"
    by simp
  have "(x mod 4 * 16 + y div 16) mod 16 = y div 16"
    using yd by (simp add: divmod_pack(2))
  moreover have "(y mod 16 * 4 + z div 64) div 4 = y mod 16"
    using zd by (simp add: divmod_pack4(1))
  ultimately show "(x mod 4 * 16 + y div 16) mod 16 * 16 + (y mod 16 * 4 + z div 64) div 4 = y"
    by simp
  have "(y mod 16 * 4 + z div 64) mod 4 = z div 64"
    using zd by (simp add: divmod_pack4(2))
  then show "(y mod 16 * 4 + z div 64) mod 4 * 64 + z mod 64 = z"
    by simp
qed

lemma a2b_b64encode: "a2b_base64 0 0 0 (b64encode bs) out = Inr (out @ bs)"
proof (induction bs arbitrary: out rule: b64encode.induct)
  case 1
  then show ?case by simp
next
  case (2 a)
  have r: "0 \<le> ord a" "ord a < 256"
    using ord_bounds[of a] by simp_all
  note q = sextets[OF r, of 0 0, simplified]
  have s1: "0 \<le> ord a div 4" "ord a div 4 < 64"
   and s2: "0 \<le> ord a mod 4 * 16" "ord a mod 4 * 16 < 64"
    using q by simp_all
  have "a2b_base64 0 0 0 (b64encode [a]) out
          = a2b_base64 2 ((ord a mod 4 * 16) mod 16) 0 [CHR ''='', CHR ''='']
              (out @ [byte (ord a div 4 * 4 + (ord a mod 4 * 16) div 16)])"
    by (simp del: a2b_base64.simps add: a2b_data(1)[OF s1] a2b_data(2)[OF s2])
  also have "\<dots> = Inr (out @ [byte (ord a)])"
    by (simp del: a2b_base64.simps add: a2b_pads)
  finally show ?case
    by (simp add: byte_ord)
next
  case (3 a b)
  have r: "0 \<le> ord a" "ord a < 256" "0 \<le> ord b" "ord b < 256"
    using ord_bounds[of a] ord_bounds[of b] by simp_all
  note q = sextets[OF r, of 0, simplified]
  have s1: "0 \<le> ord a div 4" "ord a div 4 < 64"
   and s2: "0 \<le> ord a mod 4 * 16 + ord b div 16" "ord a mod 4 * 16 + ord b div 16 < 64"
   and s3: "0 \<le> ord b mod 16 * 4" "ord b mod 16 * 4 < 64"
    using q by simp_all
  have e1: "ord a div 4 * 4 + (ord a mod 4 * 16 + ord b div 16) div 16 = ord a"
   and e2: "(ord a mod 4 * 16 + ord b div 16) mod 16 * 16 + ord b mod 16 = ord b"
    using q by simp_all
  have "a2b_base64 0 0 0 (b64encode [a, b]) out
          = a2b_base64 3 ((ord b mod 16 * 4) mod 4) 0 [CHR ''='']
              (out @ [byte (ord a div 4 * 4 + (ord a mod 4 * 16 + ord b div 16) div 16)]
                   @ [byte ((ord a mod 4 * 16 + ord b div 16) mod 16 * 16 + (ord b mod 16 * 4) div 4)])"
    by (simp del: a2b_base64.simps add: a2b_data(1)[OF s1] a2b_data(2)[OF s2] a2b_data(3)[OF s3])
  also have "\<dots> = Inr (out @ [byte (ord a), byte (ord b)])"
    using e1 e2 by (simp del: a2b_base64.simps add: a2b_pads)
  finally show ?case
    by (simp add: byte_ord)
next
  case (4 a b c r)
  have rr: "0 \<le> ord a" "ord a < 256" "0 \<le> ord b" "ord b < 256" "0 \<le> ord c" "ord c < 256"
    using ord_bounds[of a] ord_bounds[of b] ord_bounds[of c] by simp_all
  note q = sextets[OF rr]
  have s1: "0 \<le> ord a div 4" "ord a div 4 < 64"
   and s2: "0 \<le> ord a mod 4 * 16 + ord b div 16" "ord a mod 4 * 16 + ord b div 16 < 64"
   and s3: "0 \<le> ord b mod 16 * 4 + ord c div 64" "ord b mod 16 * 4 + ord c div 64 < 64"
   and s4: "0 \<le> ord c mod 64" "ord c mod 64 < 64"
    using q(1-4) by simp_all
  have "a2b_base64 0 0 0 (b64encode (a # b # c # r)) out
          = a2b_base64 0 0 0 (b64encode r)
              (out @ [byte (ord a div 4 * 4 + (ord a mod 4 * 16 + ord b div 16) div 16)]
                   @ [byte ((ord a mod 4 * 16 + ord b div 16) mod 16 * 16
                              + (ord b mod 16 * 4 + ord c div 64) div 4)]
                   @ [byte ((ord b mod 16 * 4 + ord c div 64) mod 4 * 64 + ord c mod 64)])"
    by (simp del: a2b_base64.simps
          add: a2b_data(1)[OF s1] a2b_data(2)[OF s2] a2b_data(3)[OF s3] a2b_data(4)[OF s4])
  also have "\<dots> = a2b_base64 0 0 0 (b64encode r) (out @ [a, b, c])"
    by (simp only: q(5-7) byte_ord) simp
  also have "\<dots> = Inr ((out @ [a, b, c]) @ r)"
    by (rule "4.IH")
  finally show ?case
    by simp
qed

lemma b64encode_ascii: "is_ascii (b64encode bs)"
proof (induction bs rule: b64encode.induct)
  case 1
  then show ?case by (simp add: is_ascii_def)
next
  case (2 a)
  have r: "0 \<le> ord a" "ord a < 256"
    using ord_bounds[of a] by simp_all
  note q = sextets[OF r, of 0 0, simplified]
  have "ord (b64_char (ord a div 4)) < 128" "ord (b64_char (ord a mod 4 * 16)) < 128"
    using q by (simp_all add: b64_char_props(3))
  moreover have "ord (CHR ''='') < 128"
    by (simp add: ord_def)
  ultimately show ?case
    by (simp add: is_ascii_def)
next
  case (3 a b)
  have r: "0 \<le> ord a" "ord a < 256" "0 \<le> ord b" "ord b < 256"
    using ord_bounds[of a] ord_bounds[of b] by simp_all
  note q = sextets[OF r, of 0, simplified]
  have "ord (b64_char (ord a div 4)) < 128"
       "ord (b64_char (ord a mod 4 * 16 + ord b div 16)) < 128"
       "ord (b64_char (ord b mod 16 * 4)) < 128"
    using q by (simp_all add: b64_char_props(3))
  moreover have "ord (CHR ''='') < 128"
    by (simp add: ord_def)
  ultimately show ?case
    by (simp add: is_ascii_def)
next
  case (4 a b c r)
  have rr: "0 \<le> ord a" "ord a < 256" "0 \<le> ord b" "ord b < 256" "0 \<le> ord c" "ord c < 256"
    using ord_bounds[of a] ord_bounds[of b] ord_bounds[of c] by simp_all
  note q = sextets[OF rr]
  have "ord (b64_char (ord a div 4)) < 128"
       "ord (b64_char (ord a mod 4 * 16 + ord b div 16)) < 128"
       "ord (b64_char (ord b mod 16 * 4 + ord c div 64)) < 128"
       "ord (b64_char (ord c mod 64)) < 128"
    using q(1-4) by (simp_all add: b64_char_props(3))
  then show ?case
    using "4.IH" by (simp add: is_ascii_def)
qed

lemma b64decode_b64encode: "b64decode (b64encode bs) = Inr bs"
  using a2b_b64encode[of bs "[]"] by (simp add: b64decode_def b64encode_ascii)


section \<open>Commitment verification\<close>

lemma commit_scenario_hash:
  "sha256_hash (''id,amount'' @ [CHR 0x0A] @ ''1,10'' @ [CHR 0x0A] @ ''2,20'' @ [CHR 0x0A])
     = ''31e26370225c0855b0966f4eb7b0820feaa07d086f131723c6362801ec880413''"
  by code_simp

text \<open>
  \<^verbatim>\<open>verify_commit\<close> is a function of its two arguments alone. It returns the four entries
  \<^verbatim>\<open>match\<close>, \<^verbatim>\<open>computedHash\<close>, \<^verbatim>\<open>commitHash\<close> and \<^verbatim>\<open>verified\<close>; \<^verbatim>\<open>computedHash\<close> is the SHA-256
  hex digest of the plaintext, and \<^verbatim>\<open>match\<close> (and \<^verbatim>\<open>verified\<close>) is true exactly when that digest
  and the commitment are the same string, character by character.
\<close>

lemma verify_commit_result:
  "verify_commit p c =
     [(''match'', PBool (sha256_hash p = c)),
      (''computedHash'', PStr (sha256_hash p)),
      (''commitHash'', PStr c),
      (''verified'', PBool (sha256_hash p = c))]"
  by (simp add: verify_commit_def Let_def)

lemma verify_commit_own_hash:
  "dict_get (verify_commit p (create_commit_hash p)) ''match'' PNone = PBool True"
  by (simp add: verify_commit_result create_commit_hash_def dict_get_def)

section \<open>The transport encoding\<close>

lemma encode_example:
  "json_dumps (PDict [(''nodeId'', PStr ''worker-1''), (''numSamples'', PInt 10)])
     = ''{'' @ [CHR 0x22] @ ''nodeId'' @ [CHR 0x22] @ '': '' @ [CHR 0x22] @ ''worker-1'' @ [CHR 0x22]
         @ '', '' @ [CHR 0x22] @ ''numSamples'' @ [CHR 0x22] @ '': 10}''"
  "b64encode (encode_utf8 (json_dumps (PDict [(''nodeId'', PStr ''worker-1''), (''numSamples'', PInt 10)])))
     = ''eyJub2RlSWQiOiAid29ya2VyLTEiLCAibnVtU2FtcGxlcyI6IDEwfQ==''"
  by code_simp+

text \<open>
  C7, as the code has it. Without a session key the payload goes out as its JSON text with
  \<^verbatim>\<open>encrypted\<close> false. With a session key that is not the empty string the data is the
  base64 text of the same JSON, with \<^verbatim>\<open>encrypted\<close> true and the encoding named; decoding it
  gives back the JSON of the pass-through, so nothing is hidden. The empty string counts as
  no session key.
\<close>

theorem encrypt_for_coordinator_placeholder:
  "encrypt_for_coordinator d None = [(''encrypted'', PBool False), (''data'', PStr (json_dumps d))]
   \<and> encrypt_for_coordinator d (Some []) = encrypt_for_coordinator d None
   \<and> (k \<noteq> [] \<longrightarrow>
        encrypt_for_coordinator d (Some k)
          = [(''encrypted'', PBool True),
             (''data'', PStr (b64encode (encode_utf8 (json_dumps d)))),
             (''encryption'', PStr ''base64'')])
   \<and> b64decode (b64encode (encode_utf8 (json_dumps d))) = Inr (json_dumps d)"
  by (simp add: encrypt_for_coordinator_def b64decode_b64encode encode_utf8_def)

theorem encrypt_for_coordinator_placeholder_witness:
  "''session-key'' \<noteq> []
   \<and> encrypt_for_coordinator (PDict [(''nodeId'', PStr ''worker-1''), (''numSamples'', PInt 10)])
         (Some ''session-key'')
       = [(''encrypted'', PBool True),
          (''data'', PStr ''eyJub2RlSWQiOiAid29ya2VyLTEiLCAibnVtU2FtcGxlcyI6IDEwfQ==''),
          (''encryption'', PStr ''base64'')]
   \<and> b64decode ''eyJub2RlSWQiOiAid29ya2VyLTEiLCAibnVtU2FtcGxlcyI6IDEwfQ==''
       = Inr (json_dumps (PDict [(''nodeId'', PStr ''worker-1''), (''numSamples'', PInt 10)]))"
  using encrypt_for_coordinator_placeholder
          [of "PDict [(''nodeId'', PStr ''worker-1''), (''numSamples'', PInt 10)]" "''session-key''"]
  unfolding encode_example(2) by simp

theorem empty_session_key_counterexample:
  "encrypt_for_coordinator (PDict [(''nodeId'', PStr ''worker-1'')]) (Some [])
     = [(''encrypted'', PBool False),
        (''data'', PStr (''{'' @ [CHR 0x22] @ ''nodeId'' @ [CHR 0x22] @ '': '' @ [CHR 0x22] @ ''worker-1''
                          @ [CHR 0x22] @ ''}''))]"
  by code_simp

section \<open>Loading the private key\<close>

lemma key_examples:
  "b64decode ''deadbeef'' = Inr [CHR 0x75, CHR 0xE6, CHR 0x9D, CHR 0x6D, CHR 0xE7, CHR 0x9F]"
  "fromhex ''deadbeef'' = Inr [CHR 0xDE, CHR 0xAD, CHR 0xBE, CHR 0xEF]"
  "b64decode ''abcdef'' = Inl BinasciiError"
  "fromhex ''abcdef'' = Inr [CHR 0xAB, CHR 0xCD, CHR 0xEF]"
  "b64decode ''worker-key'' = Inl BinasciiError"
  "fromhex ''worker-key'' = Inl ValueError"
  by code_simp+

text \<open>
  C3, as the code has it. A configured secret is tried as base64 first, then as
  hexadecimal, and otherwise its UTF-8 bytes are cut to at most 32 (a shorter value stays
  shorter: nothing pads it). A value that is both valid base64 and valid hexadecimal is
  therefore read as base64. The key of the constructed keypair is the result of that chain,
  and without a configured secret it is 32 fresh random bytes.
\<close>

theorem key_resolution_order:
  "(b64decode s1 = Inr bs1 \<longrightarrow> decode_private_key s1 = bs1)
   \<and> (b64decode s2 = Inl e2 \<and> fromhex s2 = Inr bs2 \<longrightarrow> decode_private_key s2 = bs2)
   \<and> (b64decode s3 = Inl e3 \<and> fromhex s3 = Inl e3' \<longrightarrow>
        decode_private_key s3 = take 32 (encode_utf8 s3) \<and> length (decode_private_key s3) \<le> 32)
   \<and> (b64decode s1 = Inr bs1 \<and> fromhex s1 = Inr bs1' \<and> bs1 \<noteq> bs1' \<longrightarrow>
        decode_private_key s1 = bs1 \<and> decode_private_key s1 \<noteq> bs1')
   \<and> (configured_secret env nid = Some s1 \<and> WorkerKeypair_init env nid = Inr kp \<longrightarrow>
        private_key_bytes kp = decode_private_key s1)
   \<and> (configured_secret env' nid = None \<longrightarrow>
        (\<exists>kp'. WorkerKeypair_init env' nid = Inr kp' \<and> private_key_bytes kp' = token_bytes env' 32))"
  by (auto simp: decode_private_key_def WorkerKeypair_init_def Let_def
           split: option.splits sum.splits if_splits)

lemma example_secret:
  "configured_secret (example_env (Some ''deadbeef'')) ''worker-1'' = Some ''deadbeef''"
  "configured_secret (example_env None) ''worker-1'' = None"
  by code_simp+

theorem key_resolution_order_witness:
  "b64decode ''deadbeef'' = Inr [CHR 0x75, CHR 0xE6, CHR 0x9D, CHR 0x6D, CHR 0xE7, CHR 0x9F]
   \<and> fromhex ''deadbeef'' = Inr [CHR 0xDE, CHR 0xAD, CHR 0xBE, CHR 0xEF]
   \<and> decode_private_key ''deadbeef'' = [CHR 0x75, CHR 0xE6, CHR 0x9D, CHR 0x6D, CHR 0xE7, CHR 0x9F]
   \<and> b64decode ''abcdef'' = Inl BinasciiError
   \<and> decode_private_key ''abcdef'' = [CHR 0xAB, CHR 0xCD, CHR 0xEF]
   \<and> b64decode ''worker-key'' = Inl BinasciiError \<and> fromhex ''worker-key'' = Inl ValueError
   \<and> decode_private_key ''worker-key'' = ''worker-key''
   \<and> configured_secret (example_env (Some ''deadbeef'')) ''worker-1'' = Some ''deadbeef''
   \<and> (\<exists>kp. WorkerKeypair_init (example_env (Some ''deadbeef'')) ''worker-1'' = Inr kp
          \<and> private_key_bytes kp = decode_private_key ''deadbeef'')
   \<and> configured_secret (example_env None) ''worker-1'' = None
   \<and> (\<exists>kp. WorkerKeypair_init (example_env None) ''worker-1'' = Inr kp
          \<and> private_key_bytes kp = replicate 32 (CHR 0x07))"
proof -
  note t = key_resolution_order
             [of "''deadbeef''" "[CHR 0x75, CHR 0xE6, CHR 0x9D, CHR 0x6D, CHR 0xE7, CHR 0x9F]"
                 "''abcdef''" BinasciiError "[CHR 0xAB, CHR 0xCD, CHR 0xEF]"
                 "''worker-key''" BinasciiError ValueError
                 "[CHR 0xDE, CHR 0xAD, CHR 0xBE, CHR 0xEF]"
                 "example_env (Some ''deadbeef'')" "''worker-1''"
                 "\<lparr>node_id = ''worker-1'', ed_keypair = False,
                   private_key_bytes = decode_private_key ''deadbeef'',
                   public_key_bytes = take 32 (sha256_digest (decode_private_key ''deadbeef''))\<rparr>"
                 "example_env None"]
  have init: "WorkerKeypair_init (example_env (Some ''deadbeef'')) ''worker-1''
      = Inr \<lparr>node_id = ''worker-1'', ed_keypair = False,
              private_key_bytes = decode_private_key ''deadbeef'',
              public_key_bytes = take 32 (sha256_digest (decode_private_key ''deadbeef''))\<rparr>"
    by (simp add: WorkerKeypair_init_def example_secret(1) Let_def) (simp add: example_env_def)
  have tok: "token_bytes (example_env None) 32 = replicate 32 (CHR 0x07)"
    by (simp add: example_env_def)
  have d1: "decode_private_key ''deadbeef''
      = [CHR 0x75, CHR 0xE6, CHR 0x9D, CHR 0x6D, CHR 0xE7, CHR 0x9F]"
    using t key_examples(1) by blast
  have d2: "decode_private_key ''abcdef'' = [CHR 0xAB, CHR 0xCD, CHR 0xEF]"
    using t key_examples(3,4) by blast
  have "decode_private_key ''worker-key'' = take 32 (encode_utf8 ''worker-key'')"
    using t key_examples(5,6) by blast
  then have d3: "decode_private_key ''worker-key'' = ''worker-key''"
    by (simp add: encode_utf8_def)
  have k1: "\<exists>kp. WorkerKeypair_init (example_env (Some ''deadbeef'')) ''worker-1'' = Inr kp
          \<and> private_key_bytes kp = decode_private_key ''deadbeef''"
    using t example_secret(1) init by blast
  have "\<exists>kp. WorkerKeypair_init (example_env None) ''worker-1'' = Inr kp
          \<and> private_key_bytes kp = token_bytes (example_env None) 32"
    using t example_secret(2) by blast
  then have k2: "\<exists>kp. WorkerKeypair_init (example_env None) ''worker-1'' = Inr kp
          \<and> private_key_bytes kp = replicate 32 (CHR 0x07)"
    unfolding tok .
  show ?thesis
    using key_examples example_secret d1 d2 d3 k1 k2 by blast
qed

theorem raw_key_not_padded_counterexample:
  "b64decode ''abc'' = Inl BinasciiError \<and> fromhex ''abc'' = Inl ValueError
   \<and> decode_private_key ''abc'' = ''abc'' \<and> length (decode_private_key ''abc'') = 3"
  by code_simp

section \<open>Joining lines and printing integers\<close>











section \<open>Optional fields of the canonical message\<close>












lemma toy_keypair_init: "WorkerKeypair_init toy_env ''worker-1'' = Inr toy_keypair"
  by (simp add: WorkerKeypair_init_def configured_secret_def private_key_env_def str_or_def
        toy_env_def toy_keypair_def toy_signer_def Let_def)



section \<open>Signature integrity\<close>














end
